theory Spec2Isabelle
  imports Complex_Main "HOL-Library.Log_Nat" "HOL-Library.Word"
begin

section \<open>IEEE 754 binary floating point, as the C++ types float and double use it\<close>

text \<open>
  Triangle.cpp computes with \<^verbatim>\<open>float\<close> (binary32) and, where \<^verbatim>\<open>M_PI\<close> takes part,
  with \<^verbatim>\<open>double\<close> (binary64). A value is a NaN, a signed infinity or a signed finite
  magnitude; the flag is the sign bit (\<open>True\<close> is negative), so \<open>Finite True 0\<close> is the
  negative zero. Every operation computes the exact rational result and rounds it to the
  nearest value of the format, ties to the even significand, which is the default
  rounding mode of a C++ program.
\<close>

datatype fpval = NaN | Infinity bool | Finite bool rat

type_synonym cfloat = fpval

type_synonym cdouble = fpval

record fpformat =
  precision :: nat
  emin :: int
  emax :: int

text \<open>\<open>emin\<close> is the exponent of the least subnormal, \<open>emax\<close> that of the largest binade.\<close>

definition binary32 :: fpformat where
  "binary32 = \<lparr>precision = 24, emin = - 149, emax = 127\<rparr>"

definition binary64 :: fpformat where
  "binary64 = \<lparr>precision = 53, emin = - 1074, emax = 1023\<rparr>"

text \<open>\<open>ilog2 q\<close> is the binade of a positive rational: \<open>2 ^ ilog2 q \<le> q < 2 ^ (ilog2 q + 1)\<close>.\<close>

definition ilog2 :: "rat \<Rightarrow> int" where
  "ilog2 q = (if 1 \<le> q then bitlen \<lfloor>q\<rfloor> - 1 else - bitlen (\<lceil>1 / q\<rceil> - 1))"

text \<open>Rounding to the nearest integer, a tie going to the even one.\<close>

definition rne :: "rat \<Rightarrow> int" where
  "rne q = (let n = \<lfloor>q\<rfloor>; r = q - of_int n
            in if r < 1 / 2 then n else if 1 / 2 < r then n + 1
               else if even n then n else n + 1)"

text \<open>
  \<open>fpround fmt s q\<close> rounds the positive magnitude \<open>q\<close> with sign \<open>s\<close>: the unit in the
  last place is \<open>2 ^ e\<close>, where \<open>e\<close> leaves \<open>precision\<close> bits above it and never falls
  below \<open>emin\<close> (gradual underflow); a result beyond the largest binade is an infinity.
\<close>

definition fpround :: "fpformat \<Rightarrow> bool \<Rightarrow> rat \<Rightarrow> fpval" where
  "fpround fmt s q =
     (let e = max (ilog2 q - (int (precision fmt) - 1)) (emin fmt);
          r = of_int (rne (q / 2 powi e)) * 2 powi e
      in if 2 powi (emax fmt + 1) \<le> r then Infinity s else Finite s r)"

definition sval :: "bool \<Rightarrow> rat \<Rightarrow> rat" where
  "sval s q = (if s then - q else q)"

fun fpneg :: "fpval \<Rightarrow> fpval" where
  "fpneg NaN = NaN"
| "fpneg (Infinity s) = Infinity (\<not> s)"
| "fpneg (Finite s q) = Finite (\<not> s) q"

fun fpadd :: "fpformat \<Rightarrow> fpval \<Rightarrow> fpval \<Rightarrow> fpval" where
  "fpadd fmt NaN y = NaN"
| "fpadd fmt x NaN = NaN"
| "fpadd fmt (Infinity s) (Infinity t) = (if s = t then Infinity s else NaN)"
| "fpadd fmt (Infinity s) (Finite t q) = Infinity s"
| "fpadd fmt (Finite s p) (Infinity t) = Infinity t"
| "fpadd fmt (Finite s p) (Finite t q) =
     (let r = sval s p + sval t q
      in if r = 0 then Finite (s \<and> t) 0 else fpround fmt (r < 0) \<bar>r\<bar>)"

definition fpsub :: "fpformat \<Rightarrow> fpval \<Rightarrow> fpval \<Rightarrow> fpval" where
  "fpsub fmt x y = fpadd fmt x (fpneg y)"

fun fpmul :: "fpformat \<Rightarrow> fpval \<Rightarrow> fpval \<Rightarrow> fpval" where
  "fpmul fmt NaN y = NaN"
| "fpmul fmt x NaN = NaN"
| "fpmul fmt (Infinity s) (Infinity t) = Infinity (s \<noteq> t)"
| "fpmul fmt (Infinity s) (Finite t q) = (if q = 0 then NaN else Infinity (s \<noteq> t))"
| "fpmul fmt (Finite s p) (Infinity t) = (if p = 0 then NaN else Infinity (s \<noteq> t))"
| "fpmul fmt (Finite s p) (Finite t q) =
     (if p * q = 0 then Finite (s \<noteq> t) 0 else fpround fmt (s \<noteq> t) (p * q))"

fun fpdiv :: "fpformat \<Rightarrow> fpval \<Rightarrow> fpval \<Rightarrow> fpval" where
  "fpdiv fmt NaN y = NaN"
| "fpdiv fmt x NaN = NaN"
| "fpdiv fmt (Infinity s) (Infinity t) = NaN"
| "fpdiv fmt (Infinity s) (Finite t q) = Infinity (s \<noteq> t)"
| "fpdiv fmt (Finite s p) (Infinity t) = Finite (s \<noteq> t) 0"
| "fpdiv fmt (Finite s p) (Finite t q) =
     (if q = 0 then (if p = 0 then NaN else Infinity (s \<noteq> t))
      else if p = 0 then Finite (s \<noteq> t) 0
      else fpround fmt (s \<noteq> t) (p / q))"

text \<open>The comparisons \<^verbatim>\<open><\<close>, \<^verbatim>\<open>>=\<close> and \<^verbatim>\<open>==\<close>: false as soon as one side is a NaN.\<close>

fun fplt :: "fpval \<Rightarrow> fpval \<Rightarrow> bool" where
  "fplt NaN y = False"
| "fplt x NaN = False"
| "fplt (Infinity s) (Infinity t) = (s \<and> \<not> t)"
| "fplt (Infinity s) (Finite t q) = s"
| "fplt (Finite s p) (Infinity t) = (\<not> t)"
| "fplt (Finite s p) (Finite t q) = (sval s p < sval t q)"

fun fpeq :: "fpval \<Rightarrow> fpval \<Rightarrow> bool" where
  "fpeq (Infinity s) (Infinity t) = (s = t)"
| "fpeq (Finite s p) (Finite t q) = (sval s p = sval t q)"
| "fpeq x y = False"

fun fpge :: "fpval \<Rightarrow> fpval \<Rightarrow> bool" where
  "fpge NaN y = False"
| "fpge x NaN = False"
| "fpge x y = (fplt y x \<or> fpeq x y)"

text \<open>A decimal literal of the source denotes the nearest value of its type.\<close>

definition fpliteral :: "fpformat \<Rightarrow> rat \<Rightarrow> fpval" where
  "fpliteral fmt q = (if q = 0 then Finite False 0 else fpround fmt (q < 0) \<bar>q\<bar>)"

abbreviation float_literal :: "rat \<Rightarrow> cfloat" where
  "float_literal \<equiv> fpliteral binary32"

abbreviation double_literal :: "rat \<Rightarrow> cdouble" where
  "double_literal \<equiv> fpliteral binary64"

text \<open>
  Conversions: \<^verbatim>\<open>float\<close> to \<^verbatim>\<open>double\<close> is exact, \<^verbatim>\<open>double\<close> to \<^verbatim>\<open>float\<close> rounds.
\<close>

definition float_to_double :: "cfloat \<Rightarrow> cdouble" where
  "float_to_double x = x"

fun double_to_float :: "cdouble \<Rightarrow> cfloat" where
  "double_to_float NaN = NaN"
| "double_to_float (Infinity s) = Infinity s"
| "double_to_float (Finite s q) = (if q = 0 then Finite s 0 else fpround binary32 s q)"

text \<open>\<^verbatim>\<open>#define M_PI 3.14159265358979323846\<close>, a \<^verbatim>\<open>double\<close> literal.\<close>

definition M_PI :: cdouble where
  "M_PI = double_literal (314159265358979323846 / 100000000000000000000)"

text \<open>
  \<^verbatim>\<open>sinf\<close> and \<^verbatim>\<open>cosf\<close> come from the platform's C library, not from this repository:
  they are parameters of everything that calls them.
\<close>

record libm =
  sinf :: "cfloat \<Rightarrow> cfloat"
  cosf :: "cfloat \<Rightarrow> cfloat"

section \<open>The matrix builders\<close>

text \<open>
  A \<^verbatim>\<open>float*\<close> buffer is the list of its elements; \<^verbatim>\<open>matrix[i] = v\<close> is
  \<open>matrix[i := v]\<close>. Every caller in Triangle.cpp passes a \<^verbatim>\<open>float[16]\<close>; the builders
  write the indices 0 to 15 only, so the theorems are stated for buffers of 16 elements.
\<close>

function identityMatrix_loop :: "nat \<Rightarrow> cfloat list \<Rightarrow> cfloat list" where
  "identityMatrix_loop i matrix =
     (if i < 16
      then identityMatrix_loop (i + 1)
             (matrix[i := (if i mod 5 = 0 then float_literal 1 else float_literal 0)])
      else matrix)"
  by pat_completeness auto
termination
  by (relation "measure (\<lambda>(i, matrix). 16 - i)") auto

definition identityMatrix :: "cfloat list \<Rightarrow> cfloat list" where
  "identityMatrix matrix = identityMatrix_loop 0 matrix"

definition createRotationMatrix :: "libm \<Rightarrow> cfloat \<Rightarrow> cfloat list \<Rightarrow> cfloat list" where
  "createRotationMatrix lm angle matrix =
     (let matrix = identityMatrix matrix;
          cosAngle = cosf lm (double_to_float
                       (fpdiv binary64 (fpmul binary64 (float_to_double angle) M_PI)
                          (float_to_double (float_literal 180))));
          sinAngle = sinf lm (double_to_float
                       (fpdiv binary64 (fpmul binary64 (float_to_double angle) M_PI)
                          (float_to_double (float_literal 180))));
          matrix = matrix[0 := cosAngle];
          matrix = matrix[1 := fpneg sinAngle];
          matrix = matrix[4 := sinAngle];
          matrix = matrix[5 := cosAngle]
      in matrix)"

definition createTranslationMatrix :: "cfloat \<Rightarrow> cfloat \<Rightarrow> cfloat list \<Rightarrow> cfloat list" where
  "createTranslationMatrix x y matrix =
     (let matrix = identityMatrix matrix;
          matrix = matrix[3 := x];
          matrix = matrix[7 := y]
      in matrix)"

definition createScalingMatrix :: "cfloat \<Rightarrow> cfloat \<Rightarrow> cfloat list \<Rightarrow> cfloat list" where
  "createScalingMatrix scaleX scaleY matrix =
     (let matrix = identityMatrix matrix;
          matrix = matrix[0 := scaleX];
          matrix = matrix[5 := scaleY]
      in matrix)"

section \<open>compileShader\<close>

text \<open>
  The OpenGL driver is outside the repository. What it answers to the calls of
  \<^verbatim>\<open>compileShader\<close> is a parameter: the handle \<^verbatim>\<open>glCreateShader\<close> returns, the value
  \<^verbatim>\<open>glGetShaderiv\<close> stores for \<^verbatim>\<open>GL_COMPILE_STATUS\<close> once the source is compiled, and the
  driver's information log. \<^verbatim>\<open>glGetShaderInfoLog(shader, 512, nullptr, infoLog)\<close> copies
  at most 511 characters of the log and a terminating NUL into \<^verbatim>\<open>char infoLog[512]\<close>.
  The error stream is the text written to it so far.
\<close>

type_synonym GLuint = "32 word"

type_synonym GLint = "32 word"

type_synonym GLenum = "32 word"

record gl_driver =
  glCreateShader :: "GLenum \<Rightarrow> GLuint"
  glCompileStatus :: "GLuint \<Rightarrow> string \<Rightarrow> GLint"
  glShaderInfoLog :: "GLuint \<Rightarrow> string \<Rightarrow> string"

definition endl :: string where
  "endl = [CHR 0x0A]"

definition compileShader :: "gl_driver \<Rightarrow> GLenum \<Rightarrow> string \<Rightarrow> string \<Rightarrow> GLuint \<times> string" where
  "compileShader gl type source cerr =
     (let shader = glCreateShader gl type;
          success = glCompileStatus gl shader source
      in if success = 0
         then (let infoLog = take 511 (glShaderInfoLog gl shader source)
               in (shader, cerr @ ''ERROR::SHADER::COMPILATION_FAILED'' @ [CHR 0x0A] @ infoLog @ endl))
         else (shader, cerr))"

section \<open>The render loop of main\<close>

text \<open>
  The local variables of \<^verbatim>\<open>main\<close> that live across frames, the close flag of the window
  and the value of the uniform \<^verbatim>\<open>transform\<close> of the shader program: the matrix last
  uploaded by \<^verbatim>\<open>glUniformMatrix4fv\<close>, and OpenGL's initial zeros before the first frame.
\<close>

record render_state =
  translationX :: cfloat
  translationY :: cfloat
  rotationAngle :: cfloat
  isJumping :: bool
  jumpHeight :: cfloat
  jumpSpeed :: cfloat
  jumpStartTime :: cfloat
  jumpDuration :: cfloat
  deltaTime :: cfloat
  lastFrame :: cfloat
  windowShouldClose :: bool
  transform_uniform :: "cfloat list"

text \<open>
  What one iteration reads from outside: the clock, the four keys it polls, whether
  \<^verbatim>\<open>glfwPollEvents\<close> sees a close request, and the indeterminate contents of the stack
  where the three local \<^verbatim>\<open>float[16]\<close> arrays are placed.
\<close>

record frame_input =
  glfwGetTime :: cdouble
  key_escape :: bool
  key_left :: bool
  key_right :: bool
  key_space :: bool
  close_event :: bool
  stack :: "nat \<Rightarrow> cfloat"

text \<open>Lines 158 to 170: the state before the first iteration.\<close>

definition main_init :: render_state where
  "main_init =
     \<lparr>translationX = float_literal (- 1),
      translationY = float_literal (- (3 / 4)),
      rotationAngle = float_literal 0,
      isJumping = False,
      jumpHeight = float_literal 0,
      jumpSpeed = float_literal (1 / 10),
      jumpStartTime = float_literal 0,
      jumpDuration = float_literal 1,
      deltaTime = float_literal 0,
      lastFrame = float_literal 0,
      windowShouldClose = False,
      transform_uniform = replicate 16 (Finite False 0)\<rparr>"

text \<open>Line 175: \<^verbatim>\<open>float currentFrame = glfwGetTime();\<close> narrows the clock to \<^verbatim>\<open>float\<close>.\<close>

definition main_currentFrame :: "frame_input \<Rightarrow> cfloat" where
  "main_currentFrame inp = double_to_float (glfwGetTime inp)"

text \<open>Lines 180 to 196: the keys.\<close>

definition main_input :: "frame_input \<Rightarrow> cfloat \<Rightarrow> render_state \<Rightarrow> render_state" where
  "main_input inp currentFrame s =
     (let s = (if key_escape inp then s\<lparr>windowShouldClose := True\<rparr> else s);
          s = (if key_left inp
               then s\<lparr>translationX := fpsub binary32 (translationX s) (float_literal (1 / 100))\<rparr>
               else s);
          s = (if key_right inp
               then s\<lparr>translationX := fpadd binary32 (translationX s) (float_literal (1 / 100))\<rparr>
               else s);
          s = (if key_space inp \<and> \<not> isJumping s
               then s\<lparr>isJumping := True, jumpStartTime := currentFrame\<rparr>
               else s)
      in s)"

text \<open>Lines 199 to 208: the jump. \<open>jumpProgress\<close> is the local variable of line 200.\<close>

definition jumpProgress :: "cfloat \<Rightarrow> render_state \<Rightarrow> cfloat" where
  "jumpProgress currentFrame s =
     fpdiv binary32 (fpsub binary32 currentFrame (jumpStartTime s)) (jumpDuration s)"

definition main_jump :: "libm \<Rightarrow> cfloat \<Rightarrow> render_state \<Rightarrow> render_state" where
  "main_jump lm currentFrame s =
     (if isJumping s
      then (if fplt (jumpProgress currentFrame s) (float_literal 1)
            then s\<lparr>jumpHeight :=
                    fpmul binary32
                      (sinf lm (double_to_float
                         (fpmul binary64 (float_to_double (jumpProgress currentFrame s)) M_PI)))
                      (float_literal (1 / 2))\<rparr>
            else s\<lparr>jumpHeight := float_literal 0, isJumping := False\<rparr>)
      else s)"

text \<open>Lines 211 to 219: the matrices and the upload.\<close>

function main_copy_loop :: "nat \<Rightarrow> cfloat list \<Rightarrow> cfloat list \<Rightarrow> cfloat list" where
  "main_copy_loop i transform finalTransform =
     (if i < 16
      then main_copy_loop (i + 1) transform (finalTransform[i := transform ! i])
      else finalTransform)"
  by pat_completeness auto
termination
  by (relation "measure (\<lambda>(i, transform, finalTransform). 16 - i)") auto

definition main_transform :: "libm \<Rightarrow> frame_input \<Rightarrow> render_state \<Rightarrow> render_state" where
  "main_transform lm inp s =
     (let transform = map (stack inp) [0..<16];
          transform = identityMatrix transform;
          transform = createTranslationMatrix (translationX s)
                        (fpadd binary32 (translationY s) (jumpHeight s)) transform;
          rotation = map (stack inp) [16..<32];
          rotation = createRotationMatrix lm (rotationAngle s) rotation;
          finalTransform = map (stack inp) [32..<48];
          finalTransform = main_copy_loop 0 transform finalTransform
      in s\<lparr>transform_uniform := finalTransform\<rparr>)"

text \<open>Lines 174 to 230: one iteration of the loop.\<close>

definition main_frame :: "libm \<Rightarrow> frame_input \<Rightarrow> render_state \<Rightarrow> render_state" where
  "main_frame lm inp s =
     (let currentFrame = main_currentFrame inp;
          s = s\<lparr>deltaTime := fpsub binary32 currentFrame (lastFrame s)\<rparr>;
          s = s\<lparr>lastFrame := currentFrame\<rparr>;
          s = main_input inp currentFrame s;
          s = main_jump lm currentFrame s;
          s = main_transform lm inp s;
          s = s\<lparr>windowShouldClose := (windowShouldClose s \<or> close_event inp)\<rparr>
      in s)"

text \<open>
  Line 173: \<^verbatim>\<open>while (!glfwWindowShouldClose(window))\<close>, run on the inputs of the
  frames to come. The result is the state at the head of the loop once the inputs are
  used up or the window is to close.
\<close>

fun main_loop :: "libm \<Rightarrow> frame_input list \<Rightarrow> render_state \<Rightarrow> render_state" where
  "main_loop lm [] s = s"
| "main_loop lm (inp # inps) s =
     (if windowShouldClose s then s else main_loop lm inps (main_frame lm inp s))"

section \<open>A C library to compute with\<close>

text \<open>
  For evaluating the loop on concrete inputs: sine and cosine by their Taylor polynomials
  of degree 13 and 12, in Horner form, computed in \<^verbatim>\<open>double\<close> and rounded to
  \<^verbatim>\<open>float\<close>. No theorem about the program depends on it.
\<close>

definition horner_sin :: "cdouble \<Rightarrow> cdouble" where
  "horner_sin x =
     (let x2 = fpmul binary64 x x;
          one = Finite False 1;
          p = fpsub binary64 one (fpdiv binary64 x2 (Finite False 156));
          p = fpsub binary64 one (fpmul binary64 (fpdiv binary64 x2 (Finite False 110)) p);
          p = fpsub binary64 one (fpmul binary64 (fpdiv binary64 x2 (Finite False 72)) p);
          p = fpsub binary64 one (fpmul binary64 (fpdiv binary64 x2 (Finite False 42)) p);
          p = fpsub binary64 one (fpmul binary64 (fpdiv binary64 x2 (Finite False 20)) p);
          p = fpsub binary64 one (fpmul binary64 (fpdiv binary64 x2 (Finite False 6)) p)
      in fpmul binary64 x p)"

definition horner_cos :: "cdouble \<Rightarrow> cdouble" where
  "horner_cos x =
     (let x2 = fpmul binary64 x x;
          one = Finite False 1;
          p = fpsub binary64 one (fpdiv binary64 x2 (Finite False 132));
          p = fpsub binary64 one (fpmul binary64 (fpdiv binary64 x2 (Finite False 90)) p);
          p = fpsub binary64 one (fpmul binary64 (fpdiv binary64 x2 (Finite False 56)) p);
          p = fpsub binary64 one (fpmul binary64 (fpdiv binary64 x2 (Finite False 30)) p);
          p = fpsub binary64 one (fpmul binary64 (fpdiv binary64 x2 (Finite False 12)) p);
          p = fpsub binary64 one (fpmul binary64 (fpdiv binary64 x2 (Finite False 2)) p)
      in p)"

fun horner_sinf :: "cfloat \<Rightarrow> cfloat" where
  "horner_sinf (Finite s q) = double_to_float (horner_sin (float_to_double (Finite s q)))"
| "horner_sinf x = NaN"

fun horner_cosf :: "cfloat \<Rightarrow> cfloat" where
  "horner_cosf (Finite s q) = double_to_float (horner_cos (float_to_double (Finite s q)))"
| "horner_cosf x = NaN"

definition horner_libm :: libm where
  "horner_libm = \<lparr>sinf = horner_sinf, cosf = horner_cosf\<rparr>"

text \<open>A frame in which no key is down, at the given time.\<close>

definition idle_frame :: "cdouble \<Rightarrow> frame_input" where
  "idle_frame t =
     \<lparr>glfwGetTime = t, key_escape = False, key_left = False, key_right = False,
      key_space = False, close_event = False, stack = (\<lambda>a. NaN)\<rparr>"

text \<open>Frames in which Left, or Left and Right, are down.\<close>

definition left_frame :: frame_input where
  "left_frame = (idle_frame (Finite False 0))\<lparr>key_left := True\<rparr>"

definition left_right_frame :: frame_input where
  "left_right_frame = (idle_frame (Finite False 0))\<lparr>key_left := True, key_right := True\<rparr>"

section \<open>Evaluating the arithmetic\<close>

lemma bitlen_numeral_eval:
  "bitlen (numeral k) = (if (0::int) < numeral k then bitlen (numeral k div 2) + 1 else 0)"
  by (rule compute_bitlen)

lemma bitlen_one_eval: "bitlen 1 = 1"
  by (subst compute_bitlen) simp

lemma floor_rat_numeral_eval:
  "\<lfloor>numeral a / numeral b :: rat\<rfloor> = numeral a div numeral b"
  "\<lfloor>1 / numeral b :: rat\<rfloor> = 1 div numeral b"
  by (metis floor_divide_of_int_eq of_int_numeral of_int_1)+

lemma ceiling_rat_numeral_eval:
  "\<lceil>numeral a / numeral b :: rat\<rceil> = - (- numeral a div numeral b)"
  "\<lceil>1 / numeral b :: rat\<rceil> = - (- 1 div numeral b)"
  using ceiling_divide_eq_div [of "numeral a" "numeral b"]
    ceiling_divide_eq_div [of 1 "numeral b"]
  by simp_all

lemmas fp_eval =
  fpsub_def sval_def fpround_def fpliteral_def ilog2_def rne_def Let_def
  binary32_def binary64_def float_to_double_def
  bitlen_numeral_eval bitlen_one_eval floor_rat_numeral_eval ceiling_rat_numeral_eval

lemma float_literal_0 [simp]: "float_literal 0 = Finite False 0"
  by (simp add: fpliteral_def)

lemma float_literal_1 [simp]: "float_literal 1 = Finite False 1"
  by (simp add: fp_eval)

lemma M_PI_value: "M_PI = Finite False (884279719003555 / 281474976710656)"
  by (simp add: M_PI_def fp_eval)

lemma float_literal_180 [simp]: "float_literal 180 = Finite False 180"
  by (simp add: fp_eval)

lemma float_literal_half [simp]: "float_literal (1 / 2) = Finite False (1 / 2)"
  by (simp add: fp_eval)

lemma float_literal_hundredth: "float_literal (1 / 100) = Finite False (5368709 / 536870912)"
  by (simp add: fp_eval)

lemma float_literal_tenth: "float_literal (1 / 10) = Finite False (13421773 / 134217728)"
  by (simp add: fp_eval)

lemma float_literal_minus_1 [simp]: "float_literal (- 1) = Finite True 1"
  by (simp add: fp_eval)

lemma float_literal_minus_3_4 [simp]: "float_literal (- (3 / 4)) = Finite True (3 / 4)"
  by (simp add: fp_eval)

lemma horner_sinf_zero: "horner_sinf (Finite b 0) = Finite b 0"
  by (simp add: horner_sin_def fp_eval)

lemma horner_cosf_zero: "horner_cosf (Finite b 0) = Finite False 1"
  by (simp add: horner_cos_def fp_eval)

lemma horner_sinf_half_pi: "horner_sinf (Finite False (13176795 / 8388608)) = Finite False 1"
  by (simp add: horner_sin_def fp_eval)

lemma jump_argument_at_half:
  "double_to_float (fpmul binary64 (float_to_double (Finite False (1 / 2))) M_PI) =
     Finite False (13176795 / 8388608)"
  by (simp add: M_PI_value fp_eval)

lemma jump_argument_at_zero:
  "double_to_float (fpmul binary64 (float_to_double (Finite b 0)) M_PI) = Finite b 0"
  by (simp add: M_PI_value float_to_double_def)

lemma funpow_numeral_eval: "(f ^^ numeral k) x = (f ^^ pred_numeral k) (f x)"
  by (simp add: numeral_eq_Suc funpow_swap1)

section \<open>Rounding\<close>

lemma ilog2_le:
  assumes "0 < q"
  shows "2 powi ilog2 q \<le> q"
proof (cases "1 \<le> q")
  case True
  then have pos: "0 < \<lfloor>q\<rfloor>" by simp
  from bitlen_bounds [OF pos] have "2 ^ nat (bitlen \<lfloor>q\<rfloor> - 1) \<le> \<lfloor>q\<rfloor>" by simp
  then have "(of_int (2 ^ nat (bitlen \<lfloor>q\<rfloor> - 1)) :: rat) \<le> of_int \<lfloor>q\<rfloor>"
    by (simp only: of_int_le_iff)
  also have "\<dots> \<le> q" by simp
  finally have "(2 :: rat) ^ nat (bitlen \<lfloor>q\<rfloor> - 1) \<le> q" by simp
  moreover have "0 \<le> bitlen \<lfloor>q\<rfloor> - 1"
    using pos bitlen_bounds [OF pos] by (smt (verit) bitlen_eq_zero_iff bitlen_nonneg)
  ultimately show ?thesis
    using True by (simp add: ilog2_def power_int_def)
next
  case False
  define n where "n = \<lceil>1 / q\<rceil> - 1"
  from False assms have "1 < 1 / q" by simp
  then have "1 < \<lceil>1 / q\<rceil>" by (simp add: less_ceiling_iff)
  then have pos: "0 < n" by (simp add: n_def)
  from bitlen_bounds [OF pos] have "n < 2 ^ nat (bitlen n)" by simp
  then have c: "\<lceil>1 / q\<rceil> \<le> 2 ^ nat (bitlen n)" by (simp add: n_def)
  have "1 / q \<le> of_int \<lceil>1 / q\<rceil>" by (rule le_of_int_ceiling)
  also have "\<dots> \<le> of_int (2 ^ nat (bitlen n))"
    using c by (simp only: of_int_le_iff)
  finally have "1 / q \<le> 2 ^ nat (bitlen n)" by simp
  then have "1 / 2 ^ nat (bitlen n) \<le> q"
    using assms by (simp add: field_simps)
  moreover have "(2 :: rat) powi (- bitlen n) = 1 / 2 ^ nat (bitlen n)"
    using bitlen_nonneg [of n] by (simp add: power_int_def power_one_over)
  ultimately show ?thesis
    using False by (simp add: ilog2_def n_def)
qed

lemma ilog2_less:
  assumes "0 < q" and "q < 2 powi K"
  shows "ilog2 q < K"
proof (rule ccontr)
  assume "\<not> ilog2 q < K"
  then have "(2 :: rat) powi K \<le> 2 powi ilog2 q"
    by (intro power_int_increasing) simp_all
  also have "\<dots> \<le> q" using assms(1) by (rule ilog2_le)
  finally show False using assms(2) by simp
qed

lemma rne_error: "\<bar>of_int (rne t) - t\<bar> \<le> 1 / 2"
proof -
  have "of_int \<lfloor>t\<rfloor> \<le> t" "t < of_int \<lfloor>t\<rfloor> + 1" by linarith+
  then show ?thesis
    by (auto simp: rne_def Let_def abs_le_iff)
qed

lemma rne_nonneg: "0 \<le> t \<Longrightarrow> 0 \<le> rne t"
  by (auto simp: rne_def Let_def)

lemma rne_le_int:
  assumes "t \<le> of_int N"
  shows "rne t \<le> N"
proof -
  have "\<lfloor>t\<rfloor> \<le> N" using assms by (simp add: floor_le_iff)
  show ?thesis
  proof (cases "\<lfloor>t\<rfloor> = N")
    case True
    with assms have "t = of_int N"
      by (metis floor_le_iff of_int_floor_le order_antisym floor_of_int le_floor_iff)
    then show ?thesis by (simp add: rne_def)
  next
    case False
    with \<open>\<lfloor>t\<rfloor> \<le> N\<close> have "\<lfloor>t\<rfloor> + 1 \<le> N" by simp
    then show ?thesis by (auto simp: rne_def Let_def)
  qed
qed

text \<open>
  Rounding a magnitude below \<open>2 ^ K\<close> moves it by at most half a unit in the last place
  of that binade, and the result is finite as long as it stays in range.
\<close>

lemma fpround_error:
  assumes q: "0 < q" "q < 2 powi K"
    and E: "emin fmt \<le> E" "K - int (precision fmt) \<le> E"
    and range: "q + 2 powi (E - 1) < 2 powi (emax fmt + 1)"
  shows "\<exists>r. fpround fmt s q = Finite s r \<and> 0 \<le> r \<and> \<bar>r - q\<bar> \<le> 2 powi (E - 1)"
proof -
  define e where "e = max (ilog2 q - (int (precision fmt) - 1)) (emin fmt)"
  define r :: rat where "r = of_int (rne (q / 2 powi e)) * 2 powi e"
  have pos: "(0 :: rat) < 2 powi e" by (simp add: zero_less_power_int)
  have "ilog2 q < K" using q by (rule ilog2_less)
  then have "e \<le> E" using E by (simp add: e_def)
  then have ulp: "(2 :: rat) powi e \<le> 2 powi E"
    by (intro power_int_increasing) simp_all
  have half: "(2 :: rat) powi (E - 1) = 2 powi E / 2"
    by (simp add: power_int_diff)
  have "r - q = (of_int (rne (q / 2 powi e)) - q / 2 powi e) * 2 powi e"
    using pos by (simp add: r_def field_simps)
  then have "\<bar>r - q\<bar> = \<bar>of_int (rne (q / 2 powi e)) - q / 2 powi e\<bar> * 2 powi e"
    using pos by (simp add: abs_mult)
  also have "\<dots> \<le> 1 / 2 * 2 powi e"
    using pos rne_error [of "q / 2 powi e"] by (intro mult_right_mono) simp_all
  also have "\<dots> \<le> 2 powi (E - 1)"
    using ulp by (simp add: half)
  finally have err: "\<bar>r - q\<bar> \<le> 2 powi (E - 1)" .
  have "0 \<le> q / 2 powi e" using q(1) pos by simp
  then have "0 \<le> rne (q / 2 powi e)" by (rule rne_nonneg)
  then have nonneg: "0 \<le> r" using pos by (simp add: r_def)
  from err have "r \<le> q + 2 powi (E - 1)" by (simp add: abs_le_iff)
  with range have "\<not> 2 powi (emax fmt + 1) \<le> r" by simp
  then have "fpround fmt s q = Finite s r"
    by (simp add: fpround_def Let_def e_def r_def)
  with nonneg err show ?thesis by blast
qed

lemma fpround32_below_8:
  assumes "0 < q" and "q < 8"
  shows "\<exists>r. fpround binary32 s q = Finite s r \<and> 0 \<le> r \<and> \<bar>r - q\<bar> \<le> 1 / 2 ^ 22"
proof -
  have "\<exists>r. fpround binary32 s q = Finite s r \<and> 0 \<le> r \<and> \<bar>r - q\<bar> \<le> 2 powi (- 21 - 1)"
    using assms by (intro fpround_error [where K = 3]) (simp_all add: binary32_def)
  then show ?thesis by (simp add: power_int_minus_divide)
qed

text \<open>Rounding never carries a magnitude across a power of two of the format.\<close>

lemma fpround32_le_power:
  assumes "0 < q" and "q \<le> 2 powi k" and "- 149 \<le> k" and "k \<le> 127"
  shows "\<exists>r. fpround binary32 s q = Finite s r \<and> 0 \<le> r \<and> r \<le> 2 powi k"
proof -
  define e where "e = max (ilog2 q - (int (precision binary32) - 1)) (emin binary32)"
  define r :: rat where "r = of_int (rne (q / 2 powi e)) * 2 powi e"
  have pos: "(0 :: rat) < 2 powi e" by (simp add: zero_less_power_int)
  have "q < 2 powi (k + 1)"
    using assms(2) power_int_strict_increasing [of k "k + 1" "2 :: rat"] by simp
  with assms(1) have "ilog2 q < k + 1" by (rule ilog2_less)
  with assms(3) have e: "e \<le> k" by (simp add: e_def binary32_def)
  define N :: int where "N = 2 ^ nat (k - e)"
  have "(of_int N :: rat) = 2 powi (k - e)"
    using e by (simp add: N_def power_int_def)
  also have "\<dots> = 2 powi k / 2 powi e"
    by (simp add: power_int_diff)
  finally have N: "(of_int N :: rat) = 2 powi k / 2 powi e" .
  have N': "of_int N * 2 powi e = (2 :: rat) powi k" using pos by (simp add: N)
  have "q / 2 powi e \<le> 2 powi k / 2 powi e"
    using assms(2) pos by (intro divide_right_mono) simp_all
  also have "\<dots> = of_int N" by (simp add: N)
  finally have "rne (q / 2 powi e) \<le> N" by (rule rne_le_int)
  then have "(of_int (rne (q / 2 powi e)) :: rat) \<le> of_int N" by simp
  then have "r \<le> of_int N * 2 powi e"
    unfolding r_def using pos by (intro mult_right_mono) simp_all
  then have le: "r \<le> 2 powi k" by (simp add: N')
  have "0 \<le> q / 2 powi e" using assms(1) pos by simp
  then have "0 \<le> rne (q / 2 powi e)" by (rule rne_nonneg)
  then have nonneg: "0 \<le> r" using pos by (simp add: r_def)
  have "(2 :: rat) powi k < 2 powi (emax binary32 + 1)"
    using assms(4) by (intro power_int_strict_increasing) (simp_all add: binary32_def)
  with le have "\<not> 2 powi (emax binary32 + 1) \<le> r" by simp
  then have "fpround binary32 s q = Finite s r"
    by (simp add: fpround_def Let_def e_def r_def)
  with nonneg le show ?thesis by blast
qed

text \<open>Halving: the product with 0.5 is bounded by half of any such bound of the factor.\<close>

lemma fpmul32_half_bound:
  assumes "0 \<le> v" and "v \<le> 2 powi k" and "- 148 \<le> k" and "k \<le> 128"
  shows "\<exists>v'. fpmul binary32 (Finite t v) (Finite False (1 / 2)) = Finite t v' \<and>
           0 \<le> v' \<and> v' \<le> 2 powi (k - 1)"
proof (cases "v = 0")
  case True
  then show ?thesis by (simp add: zero_less_power_int less_imp_le)
next
  case False
  have "(2 :: rat) powi (k - 1) = 2 powi k / 2" by (simp add: power_int_diff)
  with False assms have "0 < v / 2" "v / 2 \<le> 2 powi (k - 1)" by simp_all
  moreover have "- 149 \<le> k - 1" "k - 1 \<le> 127" using assms by simp_all
  ultimately obtain r where "fpround binary32 t (v / 2) = Finite t r" "0 \<le> r" "r \<le> 2 powi (k - 1)"
    using fpround32_le_power [of "v / 2" "k - 1" t] by blast
  with False show ?thesis by simp
qed

text \<open>The step of the offset when Left and Right are both down.\<close>

lemma abs_sval: "\<bar>sval s q\<bar> = \<bar>q\<bar>"
  by (simp add: sval_def)

lemma fpadd32_error:
  assumes "\<bar>sval s p + sval t q\<bar> < 8"
  shows "\<exists>u r. fpadd binary32 (Finite s p) (Finite t q) = Finite u r \<and>
           \<bar>sval u r - (sval s p + sval t q)\<bar> \<le> 1 / 2 ^ 22"
proof (cases "sval s p + sval t q = 0")
  case True
  then show ?thesis by (simp add: sval_def)
next
  case False
  define x where "x = sval s p + sval t q"
  from False assms have "0 < \<bar>x\<bar>" "\<bar>x\<bar> < 8" by (simp_all add: x_def)
  then obtain r where r: "fpround binary32 (x < 0) \<bar>x\<bar> = Finite (x < 0) r" "0 \<le> r"
      "\<bar>r - \<bar>x\<bar>\<bar> \<le> 1 / 2 ^ 22"
    using fpround32_below_8 [of "\<bar>x\<bar>" "x < 0"] by blast
  have "\<bar>sval (x < 0) r - x\<bar> = \<bar>r - \<bar>x\<bar>\<bar>"
    by (simp add: sval_def) linarith
  with r False show ?thesis
    by (simp add: x_def Let_def) 
qed

lemma left_right_error:
  assumes "\<bar>q\<bar> < 4"
  shows "\<exists>b' q'. fpadd binary32 (fpsub binary32 (Finite b q) (float_literal (1 / 100)))
                  (float_literal (1 / 100)) = Finite b' q' \<and>
           \<bar>sval b' q' - sval b q\<bar> \<le> 1 / 2 ^ 21"
proof -
  define d :: rat where "d = 5368709 / 536870912"
  have c: "float_literal (1 / 100) = Finite False d"
    by (simp add: float_literal_hundredth d_def)
  have d: "sval True d = - d" "sval False d = d" "0 < d" "d < 1"
    by (simp_all add: sval_def d_def)
  have x: "\<bar>sval b q\<bar> < 4" using assms by (simp add: abs_sval)
  have "\<bar>sval b q + sval True d\<bar> < 8" using x d by linarith
  then obtain u r where y: "fpadd binary32 (Finite b q) (Finite True d) = Finite u r"
      and yerr: "\<bar>sval u r - (sval b q + sval True d)\<bar> \<le> 1 / 2 ^ 22"
    using fpadd32_error by blast
  have small: "(1 :: rat) / 2 ^ 22 < 1" "(1 :: rat) / 2 ^ 22 + 1 / 2 ^ 22 = 1 / 2 ^ 21" by simp_all
  have "\<bar>sval u r + sval False d\<bar> < 8"
    using x yerr d small(1) by linarith
  then obtain b' q' where z: "fpadd binary32 (Finite u r) (Finite False d) = Finite b' q'"
      and zerr: "\<bar>sval b' q' - (sval u r + sval False d)\<bar> \<le> 1 / 2 ^ 22"
    using fpadd32_error by blast
  have "\<bar>sval b' q' - sval b q\<bar> \<le> 1 / 2 ^ 22 + 1 / 2 ^ 22"
    using yerr zerr d(1,2) by linarith
  then have "\<bar>sval b' q' - sval b q\<bar> \<le> 1 / 2 ^ 21"
    by (simp only: small(2))
  with y z show ?thesis
    by (simp add: c fpsub_def)
qed

lemma left_error:
  assumes "\<bar>q\<bar> < 4"
  shows "\<exists>b' q'. fpsub binary32 (Finite b q) (float_literal (1 / 100)) = Finite b' q' \<and>
           \<bar>sval b' q' - (sval b q - 1 / 100)\<bar> \<le> 1 / 2 ^ 21"
proof -
  define d :: rat where "d = 5368709 / 536870912"
  have c: "float_literal (1 / 100) = Finite False d"
    by (simp add: float_literal_hundredth d_def)
  have d: "sval True d = - d" "0 < d" "d < 1" "\<bar>d - 1 / 100\<bar> \<le> 1 / 2 ^ 22"
    by (simp_all add: sval_def d_def)
  have x: "\<bar>sval b q\<bar> < 4" using assms by (simp add: abs_sval)
  have "\<bar>sval b q + sval True d\<bar> < 8" using x d by linarith
  then obtain u r where y: "fpadd binary32 (Finite b q) (Finite True d) = Finite u r"
      and yerr: "\<bar>sval u r - (sval b q + sval True d)\<bar> \<le> 1 / 2 ^ 22"
    using fpadd32_error by blast
  have small: "(1 :: rat) / 2 ^ 22 + 1 / 2 ^ 22 = 1 / 2 ^ 21" by simp
  have "\<bar>sval u r - (sval b q - 1 / 100)\<bar> \<le> 1 / 2 ^ 22 + 1 / 2 ^ 22"
    using yerr d(1,4) by linarith
  then have "\<bar>sval u r - (sval b q - 1 / 100)\<bar> \<le> 1 / 2 ^ 21"
    by (simp only: small)
  with y show ?thesis
    by (simp add: c fpsub_def)
qed

lemma right_error:
  assumes "\<bar>q\<bar> < 4"
  shows "\<exists>b' q'. fpadd binary32 (Finite b q) (float_literal (1 / 100)) = Finite b' q' \<and>
           \<bar>sval b' q' - (sval b q + 1 / 100)\<bar> \<le> 1 / 2 ^ 21"
proof -
  define d :: rat where "d = 5368709 / 536870912"
  have c: "float_literal (1 / 100) = Finite False d"
    by (simp add: float_literal_hundredth d_def)
  have d: "sval False d = d" "0 < d" "d < 1" "\<bar>d - 1 / 100\<bar> \<le> 1 / 2 ^ 22"
    by (simp_all add: sval_def d_def)
  have x: "\<bar>sval b q\<bar> < 4" using assms by (simp add: abs_sval)
  have "\<bar>sval b q + sval False d\<bar> < 8" using x d by linarith
  then obtain u r where y: "fpadd binary32 (Finite b q) (Finite False d) = Finite u r"
      and yerr: "\<bar>sval u r - (sval b q + sval False d)\<bar> \<le> 1 / 2 ^ 22"
    using fpadd32_error by blast
  have small: "(1 :: rat) / 2 ^ 22 + 1 / 2 ^ 22 = 1 / 2 ^ 21" by simp
  have "\<bar>sval u r - (sval b q + 1 / 100)\<bar> \<le> 1 / 2 ^ 22 + 1 / 2 ^ 22"
    using yerr d(1,4) by linarith
  then have "\<bar>sval u r - (sval b q + 1 / 100)\<bar> \<le> 1 / 2 ^ 21"
    by (simp only: small)
  with y show ?thesis
    by (simp add: c)
qed

section \<open>Properties of the matrix builders\<close>

lemma list16_exhaust:
  assumes "length (xs :: 'a list) = 16"
  obtains a0 a1 a2 a3 a4 a5 a6 a7 a8 a9 a10 a11 a12 a13 a14 a15
  where "xs = [a0, a1, a2, a3, a4, a5, a6, a7, a8, a9, a10, a11, a12, a13, a14, a15]"
  using assms by (auto simp: numeral_eq_Suc length_Suc_conv)

lemma identityMatrix_16:
  assumes "length matrix = 16"
  shows "identityMatrix matrix =
    [Finite False 1, Finite False 0, Finite False 0, Finite False 0,
     Finite False 0, Finite False 1, Finite False 0, Finite False 0,
     Finite False 0, Finite False 0, Finite False 1, Finite False 0,
     Finite False 0, Finite False 0, Finite False 0, Finite False 1]"
proof -
  from assms obtain a0 a1 a2 a3 a4 a5 a6 a7 a8 a9 a10 a11 a12 a13 a14 a15
    where "matrix = [a0, a1, a2, a3, a4, a5, a6, a7, a8, a9, a10, a11, a12, a13, a14, a15]"
    by (rule list16_exhaust)
  then show ?thesis
    by (simp add: identityMatrix_def)
qed

lemma createTranslationMatrix_16:
  assumes "length matrix = 16"
  shows "createTranslationMatrix x y matrix =
    [Finite False 1, Finite False 0, Finite False 0, x,
     Finite False 0, Finite False 1, Finite False 0, y,
     Finite False 0, Finite False 0, Finite False 1, Finite False 0,
     Finite False 0, Finite False 0, Finite False 0, Finite False 1]"
  by (simp add: createTranslationMatrix_def identityMatrix_16 [OF assms])

lemma createRotationMatrix_16:
  assumes "length matrix = 16"
  shows "createRotationMatrix lm angle matrix =
    (let a = double_to_float
               (fpdiv binary64 (fpmul binary64 (float_to_double angle) M_PI)
                  (float_to_double (float_literal 180)))
     in [cosf lm a, fpneg (sinf lm a), Finite False 0, Finite False 0,
         sinf lm a, cosf lm a, Finite False 0, Finite False 0,
         Finite False 0, Finite False 0, Finite False 1, Finite False 0,
         Finite False 0, Finite False 0, Finite False 0, Finite False 1])"
  by (simp add: createRotationMatrix_def identityMatrix_16 [OF assms] Let_def)

lemma main_copy_loop_16:
  assumes "length transform = 16" and "length finalTransform = 16"
  shows "main_copy_loop 0 transform finalTransform = transform"
proof -
  from assms(1) obtain a0 a1 a2 a3 a4 a5 a6 a7 a8 a9 a10 a11 a12 a13 a14 a15
    where t: "transform = [a0, a1, a2, a3, a4, a5, a6, a7, a8, a9, a10, a11, a12, a13, a14, a15]"
    by (rule list16_exhaust)
  from assms(2) obtain b0 b1 b2 b3 b4 b5 b6 b7 b8 b9 b10 b11 b12 b13 b14 b15
    where f: "finalTransform = [b0, b1, b2, b3, b4, b5, b6, b7, b8, b9, b10, b11, b12, b13, b14, b15]"
    by (rule list16_exhaust)
  show ?thesis
    unfolding t f by simp
qed

lemma main_transform_uniform:
  "transform_uniform (main_transform lm inp s) =
     createTranslationMatrix (translationX s)
       (fpadd binary32 (translationY s) (jumpHeight s)) (map (stack inp) [0..<16])"
  by (simp add: main_transform_def Let_def main_copy_loop_16 createTranslationMatrix_16
      identityMatrix_16)

section \<open>Properties of a frame\<close>

lemma main_input_translationY [simp]:
  "translationY (main_input inp cur s) = translationY s"
  by (simp add: main_input_def Let_def)

lemma main_input_jumpHeight [simp]:
  "jumpHeight (main_input inp cur s) = jumpHeight s"
  by (simp add: main_input_def Let_def)

lemma main_input_jumpDuration [simp]:
  "jumpDuration (main_input inp cur s) = jumpDuration s"
  by (simp add: main_input_def Let_def)

lemma main_input_isJumping:
  "isJumping (main_input inp cur s) = (isJumping s \<or> key_space inp)"
  by (auto simp: main_input_def Let_def)

lemma main_input_jumpStartTime:
  "jumpStartTime (main_input inp cur s) =
     (if key_space inp \<and> \<not> isJumping s then cur else jumpStartTime s)"
  by (auto simp: main_input_def Let_def)

lemma main_input_translationX:
  "translationX (main_input inp cur s) =
     (let x = translationX s;
          x = (if key_left inp then fpsub binary32 x (float_literal (1 / 100)) else x);
          x = (if key_right inp then fpadd binary32 x (float_literal (1 / 100)) else x)
      in x)"
  by (simp add: main_input_def Let_def)

lemma main_input_windowShouldClose:
  "windowShouldClose (main_input inp cur s) = (windowShouldClose s \<or> key_escape inp)"
  by (simp add: main_input_def Let_def)

lemma main_jump_translationX [simp]:
  "translationX (main_jump lm cur s) = translationX s"
  by (simp add: main_jump_def)

lemma main_jump_translationY [simp]:
  "translationY (main_jump lm cur s) = translationY s"
  by (simp add: main_jump_def)

lemma main_jump_windowShouldClose [simp]:
  "windowShouldClose (main_jump lm cur s) = windowShouldClose s"
  by (simp add: main_jump_def)

lemma main_transform_fields [simp]:
  "translationX (main_transform lm inp s) = translationX s"
  "translationY (main_transform lm inp s) = translationY s"
  "isJumping (main_transform lm inp s) = isJumping s"
  "jumpHeight (main_transform lm inp s) = jumpHeight s"
  "jumpStartTime (main_transform lm inp s) = jumpStartTime s"
  "jumpDuration (main_transform lm inp s) = jumpDuration s"
  "windowShouldClose (main_transform lm inp s) = windowShouldClose s"
  by (simp_all add: main_transform_def Let_def)

lemma main_frame_translationY [simp]:
  "translationY (main_frame lm inp s) = translationY s"
  by (simp add: main_frame_def Let_def)

lemma main_frame_translationX:
  "translationX (main_frame lm inp s) =
     translationX (main_input inp (main_currentFrame inp) s)"
  by (simp add: main_frame_def Let_def main_input_translationX)

lemma main_frame_windowShouldClose:
  "windowShouldClose (main_frame lm inp s) =
     (windowShouldClose s \<or> key_escape inp \<or> close_event inp)"
  by (simp add: main_frame_def Let_def main_input_windowShouldClose)

lemma main_frame_jump:
  "isJumping (main_frame lm inp s) =
     isJumping (main_jump lm (main_currentFrame inp)
       (main_input inp (main_currentFrame inp) s))"
  "jumpHeight (main_frame lm inp s) =
     jumpHeight (main_jump lm (main_currentFrame inp)
       (main_input inp (main_currentFrame inp) s))"
  by (simp_all add: main_frame_def Let_def main_jump_def main_input_def jumpProgress_def)

lemma main_frame_transform_uniform:
  "transform_uniform (main_frame lm inp s) =
     createTranslationMatrix (translationX (main_frame lm inp s))
       (fpadd binary32 (translationY (main_frame lm inp s)) (jumpHeight (main_frame lm inp s)))
       (map (stack inp) [0..<16])"
  by (simp add: main_frame_def Let_def main_transform_uniform)

lemma main_frame_rotation_irrelevant:
  "transform_uniform (main_frame (lm\<lparr>cosf := c\<rparr>) inp (s\<lparr>rotationAngle := a\<rparr>)) =
   transform_uniform (main_frame lm inp s)"
  by (simp add: main_frame_transform_uniform main_frame_translationX main_frame_jump
      main_input_def main_jump_def jumpProgress_def Let_def)

lemma main_frame_invariant:
  assumes "\<not> isJumping s \<longrightarrow> jumpHeight s = Finite False 0"
  shows "\<not> isJumping (main_frame lm inp s) \<longrightarrow> jumpHeight (main_frame lm inp s) = Finite False 0"
  using assms
  by (auto simp: main_frame_jump main_jump_def main_input_isJumping)

lemma main_loop_invariant:
  assumes "\<not> isJumping s \<longrightarrow> jumpHeight s = Finite False 0"
  shows "\<not> isJumping (main_loop lm inps s) \<longrightarrow> jumpHeight (main_loop lm inps s) = Finite False 0"
  using assms
proof (induction inps arbitrary: s)
  case Nil
  then show ?case by simp
next
  case (Cons inp inps)
  show ?case
  proof (cases "windowShouldClose s")
    case True
    with Cons.prems show ?thesis by simp
  next
    case False
    have "\<not> isJumping (main_frame lm inp s) \<longrightarrow> jumpHeight (main_frame lm inp s) = Finite False 0"
      using Cons.prems by (rule main_frame_invariant)
    from Cons.IH [OF this] False show ?thesis by simp
  qed
qed

lemma main_loop_translationY:
  "translationY (main_loop lm inps s) = translationY s"
  by (induction inps arbitrary: s) simp_all

lemma main_loop_left_frames:
  assumes "\<not> windowShouldClose s"
  shows "translationX (main_loop lm (replicate n left_frame) s) =
           ((\<lambda>x. fpsub binary32 x (float_literal (1 / 100))) ^^ n) (translationX s)"
  using assms
proof (induction n arbitrary: s)
  case 0
  then show ?case by simp
next
  case (Suc n)
  have "\<not> windowShouldClose (main_frame lm left_frame s)"
    using Suc.prems by (simp add: main_frame_windowShouldClose left_frame_def idle_frame_def)
  from Suc.IH [OF this]
  have "translationX (main_loop lm (replicate n left_frame) (main_frame lm left_frame s)) =
          ((\<lambda>x. fpsub binary32 x (float_literal (1 / 100))) ^^ n)
            (fpsub binary32 (translationX s) (float_literal (1 / 100)))"
    by (simp add: main_frame_translationX main_input_translationX left_frame_def idle_frame_def)
  also have "\<dots> = ((\<lambda>x. fpsub binary32 x (float_literal (1 / 100))) ^^ Suc n) (translationX s)"
    by (simp only: funpow_Suc_right o_apply)
  finally show ?case
    using Suc.prems by simp
qed

lemma left_300:
  "((\<lambda>x. fpsub binary32 x (float_literal (1 / 100))) ^^ 300) (Finite True 1) =
     Finite True (4194301 / 1048576)"
  by (simp add: funpow_numeral_eval float_literal_hundredth fp_eval)

lemma left_right_after_300:
  "fpadd binary32 (fpsub binary32 (Finite True (4194301 / 1048576)) (float_literal (1 / 100)))
     (float_literal (1 / 100)) = Finite True (16777205 / 4194304)"
  by (simp add: float_literal_hundredth fp_eval)

lemmas main_eval =
  main_frame_def main_currentFrame_def main_input_def main_jump_def main_transform_def
  jumpProgress_def idle_frame_def main_init_def horner_libm_def
  createTranslationMatrix_16 createRotationMatrix_16 identityMatrix_16 main_copy_loop_16
  M_PI_value fp_eval

section \<open>The claims\<close>

text \<open>
  C1: in every frame in which the jump is active when lines 199 to 208 run, with
  f = (currentFrame - jumpStartTime) / jumpDuration: if f < 1 the jump height is set to
  sin(f * pi) * 0.5 and the jump stays active, and if f >= 1 the jump height is set to 0
  and the jump is no longer active. The sine is the C library's \<^verbatim>\<open>sinf\<close> at the
  \<^verbatim>\<open>double\<close> product \<^verbatim>\<open>jumpProgress * M_PI\<close> converted to \<^verbatim>\<open>float\<close>. At f = 0 the height
  is 0, given that the library returns \<open>sin 0 = 0\<close>; at f = 0.5 the argument is the
  \<^verbatim>\<open>float\<close> nearest to pi / 2 and the height is 0.5, given that the library returns 1
  there. The height is half the library's sine and no rounding carries it over a power of
  two: where the sine is at most \<open>2\<^sup>k\<close> in magnitude the height is at most
  \<open>2\<^sup>k\<^sup>-\<^sup>1\<close>, so it never exceeds 0.5 where the sine does not exceed 1, and it
  is as close to 0 as the sine is.
\<close>

theorem jump_height_curve:
  assumes "isJumping (main_input inp (main_currentFrame inp) s)"
  shows
    "(let f = jumpProgress (main_currentFrame inp) (main_input inp (main_currentFrame inp) s);
          a = double_to_float (fpmul binary64 (float_to_double f) M_PI);
          s' = main_frame lm inp s
      in (fplt f (Finite False 1) \<longrightarrow>
            jumpHeight s' = fpmul binary32 (sinf lm a) (Finite False (1 / 2)) \<and> isJumping s') \<and>
         (fpge f (Finite False 1) \<longrightarrow>
            jumpHeight s' = Finite False 0 \<and> \<not> isJumping s') \<and>
         (f = Finite b 0 \<and> sinf lm (Finite b 0) = Finite b 0 \<longrightarrow>
            jumpHeight s' = Finite b 0) \<and>
         (f = Finite False (1 / 2) \<and>
          sinf lm (Finite False (13176795 / 8388608)) = Finite False 1 \<longrightarrow>
            jumpHeight s' = Finite False (1 / 2)) \<and>
         (fplt f (Finite False 1) \<and> sinf lm a = Finite t v \<and>
          0 \<le> v \<and> v \<le> 2 powi k \<and> - 148 \<le> k \<and> k \<le> 0 \<longrightarrow>
            (\<exists>v'. jumpHeight s' = Finite t v' \<and> 0 \<le> v' \<and> v' \<le> 2 powi (k - 1))))"
proof -
  define f where
    "f = jumpProgress (main_currentFrame inp) (main_input inp (main_currentFrame inp) s)"
  define a where "a = double_to_float (fpmul binary64 (float_to_double f) M_PI)"
  have lt: "fplt f (Finite False 1) \<Longrightarrow>
      jumpHeight (main_frame lm inp s) = fpmul binary32 (sinf lm a) (Finite False (1 / 2)) \<and>
      isJumping (main_frame lm inp s)"
    using assms by (simp add: main_frame_jump main_jump_def f_def a_def)
  have ge: "jumpHeight (main_frame lm inp s) = Finite False 0 \<and> \<not> isJumping (main_frame lm inp s)"
    if "fpge f (Finite False 1)"
  proof -
    from that have "\<not> fplt f (Finite False 1)"
      by (cases f) (auto simp: sval_def split: if_splits)
    then show ?thesis
      using assms by (simp add: main_frame_jump main_jump_def f_def)
  qed
  have zero: "jumpHeight (main_frame lm inp s) = Finite b 0"
    if "f = Finite b 0" and "sinf lm (Finite b 0) = Finite b 0"
  proof -
    from that(1) have "fplt f (Finite False 1)" by (simp add: sval_def)
    from lt [OF this] show ?thesis
      by (simp add: a_def that jump_argument_at_zero)
  qed
  have half: "jumpHeight (main_frame lm inp s) = Finite False (1 / 2)"
    if "f = Finite False (1 / 2)"
      and "sinf lm (Finite False (13176795 / 8388608)) = Finite False 1"
  proof -
    from that(1) have "fplt f (Finite False 1)" by (simp add: sval_def)
    moreover have "fpmul binary32 (Finite False 1) (Finite False (1 / 2)) = Finite False (1 / 2)"
      by (simp add: fp_eval)
    ultimately show ?thesis
      using lt by (simp add: a_def that jump_argument_at_half)
  qed
  have bound: "\<exists>v'. jumpHeight (main_frame lm inp s) = Finite t v' \<and> 0 \<le> v' \<and> v' \<le> 2 powi (k - 1)"
    if "fplt f (Finite False 1)" and "sinf lm a = Finite t v" and "0 \<le> v" and "v \<le> 2 powi k"
      and "- 148 \<le> k" and "k \<le> 0"
    using lt [OF that(1)] fpmul32_half_bound [of v k t] that by simp
  from lt ge zero half bound show ?thesis
    unfolding Let_def f_def a_def by blast
qed

theorem jump_height_curve_witness:
  "isJumping (main_input ((idle_frame (Finite False 3))\<lparr>key_space := True\<rparr>)
     (main_currentFrame ((idle_frame (Finite False 3))\<lparr>key_space := True\<rparr>)) main_init) \<and>
   sinf horner_libm (Finite False 0) = Finite False 0 \<and>
   jumpHeight (main_frame horner_libm ((idle_frame (Finite False 3))\<lparr>key_space := True\<rparr>)
     main_init) = Finite False 0 \<and>
   isJumping (main_frame horner_libm ((idle_frame (Finite False 3))\<lparr>key_space := True\<rparr>)
     main_init) \<and>
   isJumping (main_input (idle_frame (Finite False (7 / 2)))
     (main_currentFrame (idle_frame (Finite False (7 / 2))))
     (main_init\<lparr>isJumping := True, jumpStartTime := Finite False 3\<rparr>)) \<and>
   sinf horner_libm (Finite False (13176795 / 8388608)) = Finite False 1 \<and>
   (1 :: rat) \<le> 2 powi 0 \<and>
   jumpHeight (main_frame horner_libm (idle_frame (Finite False (7 / 2)))
     (main_init\<lparr>isJumping := True, jumpStartTime := Finite False 3\<rparr>)) = Finite False (1 / 2) \<and>
   isJumping (main_frame horner_libm (idle_frame (Finite False (7 / 2)))
     (main_init\<lparr>isJumping := True, jumpStartTime := Finite False 3\<rparr>)) \<and>
   isJumping (main_input (idle_frame (Finite False 5)) (main_currentFrame (idle_frame (Finite False 5)))
     (main_init\<lparr>isJumping := True, jumpStartTime := Finite False 3\<rparr>)) \<and>
   jumpHeight (main_frame horner_libm (idle_frame (Finite False 5))
     (main_init\<lparr>isJumping := True, jumpStartTime := Finite False 3\<rparr>)) = Finite False 0 \<and>
   \<not> isJumping (main_frame horner_libm (idle_frame (Finite False 5))
     (main_init\<lparr>isJumping := True, jumpStartTime := Finite False 3\<rparr>))"
proof -
  have j0: "isJumping (main_input ((idle_frame (Finite False 3))\<lparr>key_space := True\<rparr>)
     (main_currentFrame ((idle_frame (Finite False 3))\<lparr>key_space := True\<rparr>)) main_init)"
    by (simp add: main_input_isJumping idle_frame_def)
  have j: "isJumping (main_input inp (main_currentFrame inp)
     (main_init\<lparr>isJumping := True, jumpStartTime := Finite False 3\<rparr>))" for inp
    by (simp add: main_input_isJumping)
  have p0: "jumpProgress (main_currentFrame ((idle_frame (Finite False 3))\<lparr>key_space := True\<rparr>))
     (main_input ((idle_frame (Finite False 3))\<lparr>key_space := True\<rparr>)
       (main_currentFrame ((idle_frame (Finite False 3))\<lparr>key_space := True\<rparr>)) main_init) =
     Finite False 0"
    by (simp add: jumpProgress_def main_input_jumpStartTime main_currentFrame_def
        idle_frame_def main_init_def fp_eval)
  have p1: "jumpProgress (main_currentFrame (idle_frame (Finite False (7 / 2))))
     (main_input (idle_frame (Finite False (7 / 2))) (main_currentFrame (idle_frame (Finite False (7 / 2))))
       (main_init\<lparr>isJumping := True, jumpStartTime := Finite False 3\<rparr>)) = Finite False (1 / 2)"
    by (simp add: jumpProgress_def main_input_jumpStartTime main_currentFrame_def
        idle_frame_def main_init_def fp_eval)
  have p2: "jumpProgress (main_currentFrame (idle_frame (Finite False 5)))
     (main_input (idle_frame (Finite False 5)) (main_currentFrame (idle_frame (Finite False 5)))
       (main_init\<lparr>isJumping := True, jumpStartTime := Finite False 3\<rparr>)) = Finite False 2"
    by (simp add: jumpProgress_def main_input_jumpStartTime main_currentFrame_def
        idle_frame_def main_init_def fp_eval)
  have l0: "sinf horner_libm (Finite False 0) = Finite False 0"
    by (simp add: horner_libm_def horner_sinf_zero del: horner_sinf.simps)
  have l1: "sinf horner_libm (Finite False (13176795 / 8388608)) = Finite False 1"
    by (simp add: horner_libm_def horner_sinf_half_pi del: horner_sinf.simps)
  have c: "fplt (Finite False 0) (Finite False 1)" "fplt (Finite False (1 / 2)) (Finite False 1)"
      "fpge (Finite False 2) (Finite False 1)"
    by (simp_all add: sval_def)
  from jump_height_curve [OF j0, of horner_libm False False 1 0]
    jump_height_curve [OF j, of "idle_frame (Finite False (7 / 2))" horner_libm False False 1 0]
    jump_height_curve [OF j, of "idle_frame (Finite False 5)" horner_libm False False 1 0]
  show ?thesis
    unfolding Let_def p0 p1 p2 using j0 j l0 l1 c by (auto simp: sval_def)
qed

text \<open>
  C2: in every frame and for every value of rotationAngle, the matrix uploaded to the
  uniform \<^verbatim>\<open>transform\<close> is the translation matrix built from translationX and
  translationY + jumpHeight; the rotation matrix of the frame has no part in it. The
  rotation matrix is made of rotationAngle and the library's \<^verbatim>\<open>cosf\<close> and \<^verbatim>\<open>sinf\<close>: the
  upload of a frame is the same for every angle and every \<^verbatim>\<open>cosf\<close>, and lines 211 to 219,
  where \<^verbatim>\<open>sinf\<close> serves the rotation only, upload the same for every library.
\<close>

theorem uploaded_transform_is_translation_only:
  "transform_uniform (main_frame lm inp s) =
     createTranslationMatrix (translationX (main_frame lm inp s))
       (fpadd binary32 (translationY (main_frame lm inp s)) (jumpHeight (main_frame lm inp s)))
       (map (stack inp) [0..<16]) \<and>
   transform_uniform (main_frame lm inp s) =
     [Finite False 1, Finite False 0, Finite False 0, translationX (main_frame lm inp s),
      Finite False 0, Finite False 1, Finite False 0,
        fpadd binary32 (translationY (main_frame lm inp s)) (jumpHeight (main_frame lm inp s)),
      Finite False 0, Finite False 0, Finite False 1, Finite False 0,
      Finite False 0, Finite False 0, Finite False 0, Finite False 1] \<and>
   transform_uniform (main_frame (lm\<lparr>cosf := c\<rparr>) inp (s\<lparr>rotationAngle := a\<rparr>)) =
     transform_uniform (main_frame lm inp s) \<and>
   transform_uniform (main_transform lm' inp (s\<lparr>rotationAngle := a\<rparr>)) =
     transform_uniform (main_transform lm inp s)"
  by (simp add: main_frame_rotation_irrelevant main_transform_uniform)
     (simp add: main_frame_transform_uniform createTranslationMatrix_16)

text \<open>
  C3: for all floats x and y, the translation matrix builder fills the caller's 16-element
  buffer with 1 at the indices 0, 5, 10 and 15, x at index 3, y at index 7 and 0 at every
  other index.
\<close>

theorem createTranslationMatrix_fills:
  assumes "length matrix = 16"
  shows "createTranslationMatrix x y matrix =
    [Finite False 1, Finite False 0, Finite False 0, x,
     Finite False 0, Finite False 1, Finite False 0, y,
     Finite False 0, Finite False 0, Finite False 1, Finite False 0,
     Finite False 0, Finite False 0, Finite False 0, Finite False 1]"
  using assms by (rule createTranslationMatrix_16)

theorem createTranslationMatrix_fills_witness:
  "length (replicate 16 (Infinity True)) = 16 \<and>
   createTranslationMatrix (Finite True 1) (Finite True (3 / 4)) (replicate 16 (Infinity True)) =
    [Finite False 1, Finite False 0, Finite False 0, Finite True 1,
     Finite False 0, Finite False 1, Finite False 0, Finite True (3 / 4),
     Finite False 0, Finite False 0, Finite False 1, Finite False 0,
     Finite False 0, Finite False 0, Finite False 0, Finite False 1]"
  using createTranslationMatrix_fills
    [of "replicate 16 (Infinity True)" "Finite True 1" "Finite True (3 / 4)"]
  by simp

text \<open>
  C4: for every angle in degrees, the rotation matrix builder fills the 16-element buffer
  with cos(angle*pi/180) at index 0, -sin(angle*pi/180) at index 1, sin(angle*pi/180) at
  index 4, cos(angle*pi/180) at index 5, 1 at the indices 10 and 15 and 0 elsewhere; for
  the angle 0 the result is the identity matrix. The argument of the two library calls is
  the \<^verbatim>\<open>double\<close> \<^verbatim>\<open>angle * M_PI / 180.0f\<close> converted to \<^verbatim>\<open>float\<close>; at a zero angle
  the library returns \<open>cos 0 = 1\<close> and \<open>sin 0 = 0\<close> with the sign of its argument, and the
  matrices are compared as \<^verbatim>\<open>==\<close> compares floats.
\<close>

theorem createRotationMatrix_fills:
  assumes "length matrix = 16"
  shows
    "createRotationMatrix lm angle matrix =
       [cosf lm (double_to_float (fpdiv binary64 (fpmul binary64 (float_to_double angle) M_PI)
                   (float_to_double (Finite False 180)))),
        fpneg (sinf lm (double_to_float (fpdiv binary64 (fpmul binary64 (float_to_double angle) M_PI)
                   (float_to_double (Finite False 180))))),
        Finite False 0, Finite False 0,
        sinf lm (double_to_float (fpdiv binary64 (fpmul binary64 (float_to_double angle) M_PI)
                   (float_to_double (Finite False 180)))),
        cosf lm (double_to_float (fpdiv binary64 (fpmul binary64 (float_to_double angle) M_PI)
                   (float_to_double (Finite False 180)))),
        Finite False 0, Finite False 0,
        Finite False 0, Finite False 0, Finite False 1, Finite False 0,
        Finite False 0, Finite False 0, Finite False 0, Finite False 1] \<and>
     (cosf lm (Finite b 0) = Finite False 1 \<and> sinf lm (Finite b 0) = Finite b 0 \<longrightarrow>
        list_all2 fpeq (createRotationMatrix lm (Finite b 0) matrix) (identityMatrix matrix))"
  by (simp add: createRotationMatrix_16 [OF assms] identityMatrix_16 [OF assms] Let_def
      M_PI_value float_to_double_def sval_def)

theorem createRotationMatrix_fills_witness:
  "length (replicate 16 NaN) = 16 \<and>
   cosf horner_libm (Finite False 0) = Finite False 1 \<and>
   sinf horner_libm (Finite False 0) = Finite False 0 \<and>
   createRotationMatrix horner_libm (Finite False 0) (replicate 16 NaN) =
     [Finite False 1, Finite True 0, Finite False 0, Finite False 0,
      Finite False 0, Finite False 1, Finite False 0, Finite False 0,
      Finite False 0, Finite False 0, Finite False 1, Finite False 0,
      Finite False 0, Finite False 0, Finite False 0, Finite False 1] \<and>
   list_all2 fpeq (createRotationMatrix horner_libm (Finite False 0) (replicate 16 NaN))
     (identityMatrix (replicate 16 NaN))"
proof -
  have c: "cosf horner_libm (Finite False 0) = Finite False 1"
    by (simp add: horner_libm_def horner_cosf_zero del: horner_cosf.simps)
  have s: "sinf horner_libm (Finite False 0) = Finite False 0"
    by (simp add: horner_libm_def horner_sinf_zero del: horner_sinf.simps)
  have z: "double_to_float (fpdiv binary64 (fpmul binary64 (float_to_double (Finite False 0)) M_PI)
             (float_to_double (Finite False 180))) = Finite False 0"
    by (simp add: M_PI_value float_to_double_def)
  from createRotationMatrix_fills [of "replicate 16 NaN" horner_libm "Finite False 0" False]
  show ?thesis
    unfolding z c s by auto
qed

text \<open>
  C5, as the code has it: the horizontal offset starts at -1.0. A frame with only Left
  down sets it to the \<^verbatim>\<open>float\<close> difference \<^verbatim>\<open>translationX - 0.01f\<close>, a frame with
  only Right down to the \<^verbatim>\<open>float\<close> sum \<^verbatim>\<open>translationX + 0.01f\<close>, and a frame with both down
  to \<^verbatim>\<open>(translationX - 0.01f) + 0.01f\<close>, each operation rounded to \<^verbatim>\<open>float\<close>. For a
  finite offset of magnitude below 4 the results lie within \<open>2\<^sup>-\<^sup>2\<^sup>1\<close> of the offset
  minus 0.01, of the offset plus 0.01 and of the offset before; equality with the offset
  before is not promised.
\<close>

theorem horizontal_offset_steps:
  "translationX main_init = Finite True 1 \<and>
   (key_left inp \<and> \<not> key_right inp \<longrightarrow>
      translationX (main_input inp currentFrame s) =
        fpsub binary32 (translationX s) (float_literal (1 / 100))) \<and>
   (\<not> key_left inp \<and> key_right inp \<longrightarrow>
      translationX (main_input inp currentFrame s) =
        fpadd binary32 (translationX s) (float_literal (1 / 100))) \<and>
   (key_left inp \<and> key_right inp \<longrightarrow>
      translationX (main_input inp currentFrame s) =
        fpadd binary32 (fpsub binary32 (translationX s) (float_literal (1 / 100)))
          (float_literal (1 / 100))) \<and>
   (translationX s = Finite b q \<and> \<bar>q\<bar> < 4 \<longrightarrow>
      (\<exists>b' q'. fpsub binary32 (translationX s) (float_literal (1 / 100)) = Finite b' q' \<and>
         \<bar>sval b' q' - (sval b q - 1 / 100)\<bar> \<le> 1 / 2 ^ 21) \<and>
      (\<exists>b' q'. fpadd binary32 (translationX s) (float_literal (1 / 100)) = Finite b' q' \<and>
         \<bar>sval b' q' - (sval b q + 1 / 100)\<bar> \<le> 1 / 2 ^ 21) \<and>
      (\<exists>b' q'. fpadd binary32 (fpsub binary32 (translationX s) (float_literal (1 / 100)))
                  (float_literal (1 / 100)) = Finite b' q' \<and>
         \<bar>sval b' q' - sval b q\<bar> \<le> 1 / 2 ^ 21))"
proof -
  have "translationX main_init = Finite True 1"
    by (simp add: main_init_def)
  moreover have "translationX s = Finite b q \<and> \<bar>q\<bar> < 4 \<longrightarrow>
      (\<exists>b' q'. fpsub binary32 (translationX s) (float_literal (1 / 100)) = Finite b' q' \<and>
         \<bar>sval b' q' - (sval b q - 1 / 100)\<bar> \<le> 1 / 2 ^ 21) \<and>
      (\<exists>b' q'. fpadd binary32 (translationX s) (float_literal (1 / 100)) = Finite b' q' \<and>
         \<bar>sval b' q' - (sval b q + 1 / 100)\<bar> \<le> 1 / 2 ^ 21) \<and>
      (\<exists>b' q'. fpadd binary32 (fpsub binary32 (translationX s) (float_literal (1 / 100)))
                  (float_literal (1 / 100)) = Finite b' q' \<and>
         \<bar>sval b' q' - sval b q\<bar> \<le> 1 / 2 ^ 21)"
    using left_error [of q b] right_error [of q b] left_right_error [of q b] by simp
  ultimately show ?thesis
    by (simp add: main_input_translationX)
qed

theorem horizontal_offset_steps_witness:
  "key_left left_right_frame \<and> key_right left_right_frame \<and>
   translationX main_init = Finite True 1 \<and> \<bar>1 :: rat\<bar> < 4 \<and>
   translationX (main_input left_right_frame (Finite False 0) main_init) = Finite True 1 \<and>
   key_left left_frame \<and> \<not> key_right left_frame \<and>
   translationX (main_input left_frame (Finite False 0) main_init) =
     Finite True (4236247 / 4194304) \<and>
   \<bar>sval True (4236247 / 4194304) - (sval True 1 - 1 / 100)\<bar> \<le> 1 / 2 ^ 21"
  using horizontal_offset_steps [of left_right_frame "Finite False 0" main_init True 1]
    horizontal_offset_steps [of left_frame "Finite False 0" main_init True 1]
  by (simp add: left_right_frame_def left_frame_def idle_frame_def main_init_def
      float_literal_hundredth fp_eval)

text \<open>
  C5 fails as stated: after 300 frames with only Left down, the offset is
  \<open>-4194301 / 2\<^sup>2\<^sup>0\<close>, and a frame with Left and Right both down moves it to
  \<open>-16777205 / 2\<^sup>2\<^sup>2\<close>, one unit in the last place further from zero (the
  \<^verbatim>\<open>float\<close> 0xC07FFFF4 becomes 0xC07FFFF5); the two differ under \<^verbatim>\<open>==\<close> as well.
\<close>

theorem left_right_do_not_cancel:
  "translationX (main_loop horner_libm (replicate 300 left_frame) main_init) =
     Finite True (4194301 / 1048576) \<and>
   key_left left_right_frame \<and> key_right left_right_frame \<and>
   translationX (main_input left_right_frame (Finite False 0)
       (main_loop horner_libm (replicate 300 left_frame) main_init)) =
     Finite True (16777205 / 4194304) \<and>
   translationX (main_input left_right_frame (Finite False 0)
       (main_loop horner_libm (replicate 300 left_frame) main_init)) \<noteq>
     translationX (main_loop horner_libm (replicate 300 left_frame) main_init) \<and>
   \<not> fpeq (translationX (main_input left_right_frame (Finite False 0)
       (main_loop horner_libm (replicate 300 left_frame) main_init)))
     (translationX (main_loop horner_libm (replicate 300 left_frame) main_init))"
proof -
  have run: "translationX (main_loop horner_libm (replicate 300 left_frame) main_init) =
     Finite True (4194301 / 1048576)"
    using main_loop_left_frames [of main_init horner_libm 300]
    by (simp add: main_init_def left_300)
  have keys: "key_left left_right_frame" "key_right left_right_frame"
    by (simp_all add: left_right_frame_def idle_frame_def)
  have step: "translationX (main_input left_right_frame (Finite False 0)
       (main_loop horner_libm (replicate 300 left_frame) main_init)) =
     Finite True (16777205 / 4194304)"
    by (simp add: main_input_translationX keys run left_right_after_300)
  show ?thesis
    by (simp add: run keys step sval_def)
qed

text \<open>
  C6: in a frame in which Space is pressed while the jump is already active, the handling
  of the input leaves the start time of the jump and the active flag as they were.
\<close>

theorem space_while_jumping_is_noop:
  assumes "isJumping s" and "key_space inp"
  shows "jumpStartTime (main_input inp currentFrame s) = jumpStartTime s \<and>
         isJumping (main_input inp currentFrame s) = isJumping s"
  using assms by (simp add: main_input_jumpStartTime main_input_isJumping)

theorem space_while_jumping_is_noop_witness:
  "isJumping (main_init\<lparr>isJumping := True, jumpStartTime := Finite False 3\<rparr>) \<and>
   key_space ((idle_frame (Finite False 4))\<lparr>key_space := True\<rparr>) \<and>
   jumpStartTime (main_input ((idle_frame (Finite False 4))\<lparr>key_space := True\<rparr>) (Finite False 4)
     (main_init\<lparr>isJumping := True, jumpStartTime := Finite False 3\<rparr>)) = Finite False 3 \<and>
   isJumping (main_input ((idle_frame (Finite False 4))\<lparr>key_space := True\<rparr>) (Finite False 4)
     (main_init\<lparr>isJumping := True, jumpStartTime := Finite False 3\<rparr>))"
  using space_while_jumping_is_noop
    [of "main_init\<lparr>isJumping := True, jumpStartTime := Finite False 3\<rparr>"
        "(idle_frame (Finite False 4))\<lparr>key_space := True\<rparr>" "Finite False 4"]
  by (simp add: idle_frame_def)

text \<open>
  C7: in every state the render loop reaches at the head of an iteration, the jump height
  is 0 whenever the jump is not active.
\<close>

theorem jumpHeight_zero_unless_jumping:
  "\<not> isJumping (main_loop lm inps main_init) \<longrightarrow>
     jumpHeight (main_loop lm inps main_init) = Finite False 0"
  by (rule main_loop_invariant) (simp add: main_init_def)

theorem jumpHeight_zero_unless_jumping_witness:
  "\<not> isJumping (main_loop horner_libm
       [(idle_frame (Finite False 3))\<lparr>key_space := True\<rparr>, idle_frame (Finite False 5)]
       main_init) \<and>
   jumpHeight (main_loop horner_libm
       [(idle_frame (Finite False 3))\<lparr>key_space := True\<rparr>, idle_frame (Finite False 5)]
       main_init) = Finite False 0"
proof -
  have "\<not> isJumping (main_loop horner_libm
       [(idle_frame (Finite False 3))\<lparr>key_space := True\<rparr>, idle_frame (Finite False 5)]
       main_init)"
    by (simp add: main_eval horner_sinf_zero)
  with jumpHeight_zero_unless_jumping [of horner_libm
       "[(idle_frame (Finite False 3))\<lparr>key_space := True\<rparr>, idle_frame (Finite False 5)]"]
  show ?thesis by blast
qed

text \<open>
  C8: when the compilation of a shader source fails, compileShader writes a diagnostic
  message taken from a log buffer of 512 bytes to the error stream and still returns the
  shader handle: the handle is the same on success and on failure, and nothing aborts.
\<close>

theorem compileShader_reports_and_returns_handle:
  "fst (compileShader gl type source cerr) = glCreateShader gl type \<and>
   (glCompileStatus gl (glCreateShader gl type) source = 0 \<longrightarrow>
      snd (compileShader gl type source cerr) =
        cerr @ ''ERROR::SHADER::COMPILATION_FAILED'' @ [CHR 0x0A]
          @ take 511 (glShaderInfoLog gl (glCreateShader gl type) source) @ [CHR 0x0A] \<and>
      length (take 511 (glShaderInfoLog gl (glCreateShader gl type) source)) + 1 \<le> 512) \<and>
   (glCompileStatus gl (glCreateShader gl type) source \<noteq> 0 \<longrightarrow>
      snd (compileShader gl type source cerr) = cerr)"
  by (simp add: compileShader_def Let_def endl_def)

theorem compileShader_reports_and_returns_handle_witness:
  "glCompileStatus
     \<lparr>glCreateShader = (\<lambda>t. 7), glCompileStatus = (\<lambda>h src. if src = ''void main() {}'' then 1 else 0),
      glShaderInfoLog = (\<lambda>h src. ''0:1(1): error: syntax error'')\<rparr> 7 ''#version'' = 0 \<and>
   compileShader
     \<lparr>glCreateShader = (\<lambda>t. 7), glCompileStatus = (\<lambda>h src. if src = ''void main() {}'' then 1 else 0),
      glShaderInfoLog = (\<lambda>h src. ''0:1(1): error: syntax error'')\<rparr> 35633 ''#version'' [] =
     (7, ''ERROR::SHADER::COMPILATION_FAILED'' @ [CHR 0x0A] @ ''0:1(1): error: syntax error'' @ [CHR 0x0A]) \<and>
   glCompileStatus
     \<lparr>glCreateShader = (\<lambda>t. 7), glCompileStatus = (\<lambda>h src. if src = ''void main() {}'' then 1 else 0),
      glShaderInfoLog = (\<lambda>h src. ''0:1(1): error: syntax error'')\<rparr> 7 ''void main() {}'' \<noteq> 0 \<and>
   compileShader
     \<lparr>glCreateShader = (\<lambda>t. 7), glCompileStatus = (\<lambda>h src. if src = ''void main() {}'' then 1 else 0),
      glShaderInfoLog = (\<lambda>h src. ''0:1(1): error: syntax error'')\<rparr> 35633 ''void main() {}'' [] =
     (7, [])"
  using compileShader_reports_and_returns_handle
    [of "\<lparr>glCreateShader = (\<lambda>t. 7), glCompileStatus = (\<lambda>h src. if src = ''void main() {}'' then 1 else 0),
      glShaderInfoLog = (\<lambda>h src. ''0:1(1): error: syntax error'')\<rparr>" 35633 "''#version''" "[]"]
    compileShader_reports_and_returns_handle
    [of "\<lparr>glCreateShader = (\<lambda>t. 7), glCompileStatus = (\<lambda>h src. if src = ''void main() {}'' then 1 else 0),
      glShaderInfoLog = (\<lambda>h src. ''0:1(1): error: syntax error'')\<rparr>" 35633 "''void main() {}''" "[]"]
  by (simp add: prod_eq_iff)

text \<open>
  C9: for any call, the identity matrix builder fills the caller's 16-element buffer with
  1.0 at the indices 0, 5, 10 and 15 and with 0.0 at every other index.
\<close>

theorem identityMatrix_fills_diagonal:
  assumes "length matrix = 16"
  shows "identityMatrix matrix =
    [Finite False 1, Finite False 0, Finite False 0, Finite False 0,
     Finite False 0, Finite False 1, Finite False 0, Finite False 0,
     Finite False 0, Finite False 0, Finite False 1, Finite False 0,
     Finite False 0, Finite False 0, Finite False 0, Finite False 1]"
  using assms by (rule identityMatrix_16)

theorem identityMatrix_fills_diagonal_witness:
  "length (replicate 16 NaN) = 16 \<and>
   identityMatrix (replicate 16 NaN) =
    [Finite False 1, Finite False 0, Finite False 0, Finite False 0,
     Finite False 0, Finite False 1, Finite False 0, Finite False 0,
     Finite False 0, Finite False 0, Finite False 1, Finite False 0,
     Finite False 0, Finite False 0, Finite False 0, Finite False 1]"
  using identityMatrix_fills_diagonal [of "replicate 16 NaN"] by simp

text \<open>
  C10: translationY is initialised to -0.75 and no iteration of the render loop modifies
  it, so it is -0.75 after every frame.
\<close>

theorem translationY_never_modified:
  "translationY main_init = Finite True (3 / 4) \<and>
   translationY (main_frame lm inp s) = translationY s \<and>
   translationY (main_loop lm inps main_init) = Finite True (3 / 4)"
  by (simp add: main_loop_translationY) (simp add: main_init_def)

end
